theory Spec2Isabelle
  imports Main
begin

section \<open>JavaScript values and the operators the service uses\<close>

text \<open>
  The service (\<^verbatim>\<open>src/lib/services/spotify.ts\<close>) reads the bodies of its three upstream
  calls with \<^verbatim>\<open>response.json()\<close>, whose result has the type \<^verbatim>\<open>any\<close>: the declared types
  \<^verbatim>\<open>Track\<close>, \<^verbatim>\<open>SpotifyAlbum\<close>, ... are erased at run time. The model therefore works on
  parsed JSON values, with \<^verbatim>\<open>undefined\<close> added for what a property read of a missing key
  gives.

  A JSON number is a double. The code observes two things of a number: whether it is
  zero (\<^verbatim>\<open>!x\<close>, \<^verbatim>\<open>x === 0\<close>), and, inside \<^verbatim>\<open>join\<close> and template strings, its rendering
  by \<^verbatim>\<open>Number.prototype.toString\<close>. A number is therefore carried as zero, or as a
  non-zero number given by its rendering.
\<close>

datatype number = Zero | NonZero string

datatype jsval =
    JUndefined
  | JNull
  | JBool bool
  | JNum number
  | JStr string
  | JArr "jsval list"
  | JObj "(string \<times> jsval) list"

text \<open>
  What the code can throw: \<^verbatim>\<open>new Error(message)\<close>, the \<^verbatim>\<open>TypeError\<close> of a property
  read on \<^verbatim>\<open>undefined\<close>/\<^verbatim>\<open>null\<close>, of a call of something that is not a function and of
  a string conversion that finds no callable \<^verbatim>\<open>toString\<close>, and the \<^verbatim>\<open>SyntaxError\<close> of
  \<^verbatim>\<open>response.json()\<close> on a body that is not JSON.
\<close>

datatype error = Error string | TypeError | SyntaxError

type_synonym 'a result = "error + 'a"

definition bindE :: "'a result \<Rightarrow> ('a \<Rightarrow> 'b result) \<Rightarrow> 'b result" where
  "bindE m f = (case m of Inl e \<Rightarrow> Inl e | Inr x \<Rightarrow> f x)"

text \<open>\<^verbatim>\<open>if (x)\<close>, \<^verbatim>\<open>!x\<close> and \<^verbatim>\<open>x || y\<close> go by truthiness.\<close>

fun truthy :: "jsval \<Rightarrow> bool" where
  "truthy JUndefined = False"
| "truthy JNull = False"
| "truthy (JBool b) = b"
| "truthy (JNum n) = (n \<noteq> Zero)"
| "truthy (JStr s) = (s \<noteq> [])"
| "truthy (JArr xs) = True"
| "truthy (JObj kvs) = True"

definition orElse :: "jsval \<Rightarrow> jsval \<Rightarrow> jsval" where
  \<comment> \<open>\<^verbatim>\<open>a || b\<close>\<close>
  "orElse a b = (if truthy a then a else b)"

fun nullish :: "jsval \<Rightarrow> bool" where
  "nullish JUndefined = True"
| "nullish JNull = True"
| "nullish v = False"

text \<open>
  The length of an array or a string is a natural number, and its rendering is its
  decimal digits.
\<close>

fun showNat :: "nat \<Rightarrow> string" where
  "showNat n =
     (if n < 10 then [''0123456789'' ! n]
      else showNat (n div 10) @ [''0123456789'' ! (n mod 10)])"

definition lengthNum :: "nat \<Rightarrow> number" where
  "lengthNum n = (if n = 0 then Zero else NonZero (showNat n))"

text \<open>
  \<^verbatim>\<open>x.k\<close> for the fixed keys the code reads. A read on \<^verbatim>\<open>undefined\<close> or \<^verbatim>\<open>null\<close>
  throws; an object gives the stored value or \<^verbatim>\<open>undefined\<close>; arrays and strings have a
  \<^verbatim>\<open>length\<close>; every other read gives \<^verbatim>\<open>undefined\<close>.
\<close>

fun getProp :: "jsval \<Rightarrow> string \<Rightarrow> jsval result" where
  "getProp JUndefined k = Inl TypeError"
| "getProp JNull k = Inl TypeError"
| "getProp (JObj kvs) k = Inr (case map_of kvs k of Some v \<Rightarrow> v | None \<Rightarrow> JUndefined)"
| "getProp (JArr xs) k = Inr (if k = ''length'' then JNum (lengthNum (length xs)) else JUndefined)"
| "getProp (JStr s) k = Inr (if k = ''length'' then JNum (lengthNum (length s)) else JUndefined)"
| "getProp (JBool b) k = Inr JUndefined"
| "getProp (JNum n) k = Inr JUndefined"

definition optProp :: "jsval \<Rightarrow> string \<Rightarrow> jsval result" where
  \<comment> \<open>\<^verbatim>\<open>x?.k\<close>\<close>
  "optProp x k = (if nullish x then Inr JUndefined else getProp x k)"

text \<open>\<^verbatim>\<open>x[0]\<close>: the first element of an array, the first character of a string, the key
  \<^verbatim>\<open>"0"\<close> of an object.\<close>

fun getIndex0 :: "jsval \<Rightarrow> jsval result" where
  "getIndex0 JUndefined = Inl TypeError"
| "getIndex0 JNull = Inl TypeError"
| "getIndex0 (JArr xs) = Inr (case xs of [] \<Rightarrow> JUndefined | x # _ \<Rightarrow> x)"
| "getIndex0 (JStr s) = Inr (case s of [] \<Rightarrow> JUndefined | c # _ \<Rightarrow> JStr [c])"
| "getIndex0 (JObj kvs) = Inr (case map_of kvs ''0'' of Some v \<Rightarrow> v | None \<Rightarrow> JUndefined)"
| "getIndex0 (JBool b) = Inr JUndefined"
| "getIndex0 (JNum n) = Inr JUndefined"

text \<open>
  String conversion, as a template string \<^verbatim>\<open>`${x}`\<close> and \<^verbatim>\<open>Array.prototype.join\<close> do it.
  An array renders as its elements joined with a comma. An object renders as
  \<^verbatim>\<open>[object Object]\<close> through the \<^verbatim>\<open>toString\<close> it inherits; when the object has a key
  \<^verbatim>\<open>toString\<close> of its own, that value (parsed JSON, so not a function) hides the inherited
  method and the conversion throws. \<^verbatim>\<open>xs.join(sep)\<close> renders \<^verbatim>\<open>undefined\<close> and \<^verbatim>\<open>null\<close>
  elements as the empty string and converts the others from left to right.
\<close>

fun showNumber :: "number \<Rightarrow> string" where
  "showNumber Zero = ''0''"
| "showNumber (NonZero r) = r"

fun toStringJS :: "jsval \<Rightarrow> string result"
  and jsJoin :: "string \<Rightarrow> jsval list \<Rightarrow> string result" where
  "toStringJS JUndefined = Inr ''undefined''"
| "toStringJS JNull = Inr ''null''"
| "toStringJS (JBool b) = Inr (if b then ''true'' else ''false'')"
| "toStringJS (JNum n) = Inr (showNumber n)"
| "toStringJS (JStr s) = Inr s"
| "toStringJS (JArr xs) = jsJoin '','' xs"
| "toStringJS (JObj kvs) =
     (if map_of kvs ''toString'' \<noteq> None then Inl TypeError else Inr ''[object Object]'')"
| "jsJoin sep [] = Inr []"
| "jsJoin sep [x] = (if nullish x then Inr [] else toStringJS x)"
| "jsJoin sep (x # y # ys) =
     bindE (if nullish x then Inr [] else toStringJS x) (\<lambda>a.
     bindE (jsJoin sep (y # ys)) (\<lambda>b. Inr (a @ sep @ b)))"

text \<open>
  An HTTP status is a three-digit integer, which a template string renders in decimal.
\<close>

definition showInt :: "int \<Rightarrow> string" where
  "showInt i = (if i < 0 then CHR ''-'' # showNat (nat (- i)) else showNat (nat i))"

fun joinWith :: "string \<Rightarrow> string list \<Rightarrow> string" where
  \<comment> \<open>the strings of a list with a separator between them\<close>
  "joinWith sep [] = []"
| "joinWith sep [x] = x"
| "joinWith sep (x # y # ys) = x @ sep @ joinWith sep (y # ys)"

fun mapE :: "('a \<Rightarrow> 'b result) \<Rightarrow> 'a list \<Rightarrow> 'b list result" where
  "mapE f [] = Inr []"
| "mapE f (x # xs) = bindE (f x) (\<lambda>y. bindE (mapE f xs) (\<lambda>ys. Inr (y # ys)))"

fun jsMap :: "(jsval \<Rightarrow> jsval result) \<Rightarrow> jsval \<Rightarrow> jsval list result" where
  \<comment> \<open>\<^verbatim>\<open>x.map(f)\<close>: only an array has a callable \<^verbatim>\<open>map\<close>\<close>
  "jsMap f (JArr xs) = mapE f xs"
| "jsMap f v = Inl TypeError"

declare showNat.simps [simp del]

section \<open>Data model\<close>

text \<open>
  \<^verbatim>\<open>SpotifyData\<close> is the record the service returns. \<^verbatim>\<open>mapSpotifyData\<close> builds the four
  fields of \<^verbatim>\<open>TrackInfo\<close>, and the callers spread them under an \<^verbatim>\<open>isPlaying\<close> of their
  own. The fields hold JavaScript values: nothing checks at run time that
  \<^verbatim>\<open>data.is_playing\<close> is a boolean or \<^verbatim>\<open>track.name\<close> a string.
\<close>

record TrackInfo =
  songUrl :: jsval
  title :: jsval
  albumImageUrl :: jsval
  artist :: jsval

record SpotifyData = TrackInfo +
  isPlaying :: jsval

definition spread :: "jsval \<Rightarrow> TrackInfo \<Rightarrow> SpotifyData" where
  \<comment> \<open>\<^verbatim>\<open>{ isPlaying: b, ...m }\<close>\<close>
  "spread b m =
     \<lparr>songUrl = songUrl m, title = title m, albumImageUrl = albumImageUrl m,
      artist = artist m, isPlaying = b\<rparr>"

record CacheEntry =
  data :: SpotifyData
  timestamp :: int

definition CACHE_DURATION :: int where
  "CACHE_DURATION = 15000"

text \<open>The three credentials of \<^verbatim>\<open>process.env\<close>: each a string or \<^verbatim>\<open>undefined\<close>.\<close>

record config =
  SPOTIFY_CLIENT_ID :: "string option"
  SPOTIFY_CLIENT_SECRET :: "string option"
  SPOTIFY_REFRESH_TOKEN :: "string option"

text \<open>
  An HTTP response as the code reads it: its status, and what \<^verbatim>\<open>response.json()\<close> gives
  (a parsed value, or a throw). \<^verbatim>\<open>response.ok\<close> is the status range 200..299 of the Fetch
  standard.
\<close>

record response =
  status :: int
  body :: "jsval result"

definition ok :: "response \<Rightarrow> bool" where
  "ok r = (200 \<le> status r \<and> status r \<le> 299)"

text \<open>
  The upstream collaborators, as functions of what the request carries: the token
  endpoint of client id, client secret and refresh token; the two player endpoints of the
  bearer token. Each \<^verbatim>\<open>fetch\<close> resolves to a response or rejects.
\<close>

record upstream =
  tokenEndpoint :: "string \<Rightarrow> string \<Rightarrow> string \<Rightarrow> response result"
  currentlyPlaying :: "string \<Rightarrow> response result"
  recentlyPlayed :: "string \<Rightarrow> response result"

text \<open>
  The surroundings of one call of \<^verbatim>\<open>getSpotifyData\<close>: the configuration, the upstream, and
  the two places that read the clock, \<^verbatim>\<open>Date.now()\<close> in \<^verbatim>\<open>getCachedData\<close> and in
  \<^verbatim>\<open>setCachedData\<close> (each runs at most once per call).
\<close>

record env =
  config :: config
  upstream :: upstream
  nowAtGet :: int
  nowAtSet :: int

text \<open>
  The module state: the variable \<^verbatim>\<open>cache\<close>, and (ghost state, for the claims about network
  activity) the log of the upstream calls made so far.
\<close>

datatype call = TokenCall | CurrentlyPlayingCall | RecentlyPlayedCall

record state =
  cache :: "CacheEntry option"
  calls :: "call list"

section \<open>Computations with state and exceptions\<close>

type_synonym 'a io = "state \<Rightarrow> 'a result \<times> state"

definition returnIO :: "'a \<Rightarrow> 'a io" where
  "returnIO x s = (Inr x, s)"

definition throwIO :: "error \<Rightarrow> 'a io" where
  "throwIO e s = (Inl e, s)"

definition bindIO :: "'a io \<Rightarrow> ('a \<Rightarrow> 'b io) \<Rightarrow> 'b io" where
  "bindIO m f s = (case m s of (Inl e, s') \<Rightarrow> (Inl e, s') | (Inr x, s') \<Rightarrow> f x s')"

definition liftE :: "'a result \<Rightarrow> 'a io" where
  \<comment> \<open>an expression that may throw and touches no state\<close>
  "liftE r s = (r, s)"

definition tryCatch :: "'a io \<Rightarrow> (error \<Rightarrow> 'a io) \<Rightarrow> 'a io" where
  "tryCatch m h s = (case m s of (Inl e, s') \<Rightarrow> h e s' | (Inr x, s') \<Rightarrow> (Inr x, s'))"

definition fetchIO :: "call \<Rightarrow> response result \<Rightarrow> response io" where
  \<comment> \<open>\<^verbatim>\<open>await fetch(...)\<close>: the call is logged, its outcome is the upstream's\<close>
  "fetchIO c outcome s = (outcome, s\<lparr>calls := calls s @ [c]\<rparr>)"

section \<open>The service\<close>

definition envFalsy :: "string option \<Rightarrow> bool" where
  \<comment> \<open>\<^verbatim>\<open>!v\<close> for a \<^verbatim>\<open>process.env\<close> entry: unset or empty\<close>
  "envFalsy v = (case v of None \<Rightarrow> True | Some x \<Rightarrow> x = [])"

definition envStr :: "string option \<Rightarrow> string" where
  \<comment> \<open>\<^verbatim>\<open>${v}\<close> for a \<^verbatim>\<open>process.env\<close> entry\<close>
  "envStr v = (case v of None \<Rightarrow> ''undefined'' | Some x \<Rightarrow> x)"

definition getAccessToken :: "env \<Rightarrow> jsval io" where
  "getAccessToken e =
     (let clientId = SPOTIFY_CLIENT_ID (config e);
          clientSecret = SPOTIFY_CLIENT_SECRET (config e);
          refreshToken = SPOTIFY_REFRESH_TOKEN (config e)
      in
        if envFalsy clientId \<or> envFalsy clientSecret \<or> envFalsy refreshToken
        then throwIO (Error ''Missing Spotify credentials in environment variables'')
        else
          bindIO (fetchIO TokenCall
                    (tokenEndpoint (upstream e) (envStr clientId) (envStr clientSecret)
                       (envStr refreshToken)))
            (\<lambda>response.
              if \<not> ok response
              then throwIO (Error (''Token refresh failed: '' @ showInt (status response)))
              else
                bindIO (liftE (body response)) (\<lambda>data.
                bindIO (liftE (getProp data ''error'')) (\<lambda>err.
                  if truthy err
                  then bindIO (liftE (getProp data ''error_description'')) (\<lambda>desc.
                       bindIO (liftE (toStringJS (orElse desc err))) (\<lambda>description.
                         throwIO (Error (''Spotify auth error: '' @ description))))
                  else returnIO data))))"

definition getNowPlayingResponse :: "env \<Rightarrow> jsval \<Rightarrow> response io" where
  \<comment> \<open>the header \<^verbatim>\<open>`Bearer ${accessToken}`\<close> is built before the request is made\<close>
  "getNowPlayingResponse e accessToken =
     bindIO (liftE (toStringJS accessToken)) (\<lambda>bearer.
     fetchIO CurrentlyPlayingCall (currentlyPlaying (upstream e) bearer))"

definition mapSpotifyData :: "jsval \<Rightarrow> TrackInfo result" where
  "mapSpotifyData track =
     bindE (bindE (getProp track ''external_urls'') (\<lambda>u. optProp u ''spotify'')) (\<lambda>url.
     bindE (getProp track ''name'') (\<lambda>name.
     bindE (bindE (getProp track ''album'') (\<lambda>album.
              if nullish album then Inr JUndefined
              else bindE (getProp album ''images'') (\<lambda>images.
                   bindE (getIndex0 images) (\<lambda>image. optProp image ''url'')))) (\<lambda>imageUrl.
     bindE (bindE (getProp track ''artists'') (\<lambda>artists.
              if nullish artists then Inr JUndefined
              else bindE (jsMap (\<lambda>a. getProp a ''name'') artists) (\<lambda>names.
                   bindE (jsJoin '', '' names) (\<lambda>j. Inr (JStr j))))) (\<lambda>joined.
     Inr \<lparr>songUrl = orElse url JNull,
          title = orElse name (JStr ''Unknown Track''),
          albumImageUrl = orElse imageUrl JNull,
          artist = orElse joined (JStr ''Unknown Artist'')\<rparr>))))"

definition noRecentTracks :: SpotifyData where
  "noRecentTracks =
     \<lparr>songUrl = JNull, title = JStr ''No Recent Tracks'', albumImageUrl = JNull,
      artist = JStr ''No listening history'', isPlaying = JBool False\<rparr>"

definition recentUnavailable :: SpotifyData where
  "recentUnavailable =
     \<lparr>songUrl = JNull, title = JStr ''Unable to fetch'', albumImageUrl = JNull,
      artist = JStr ''Recent tracks unavailable'', isPlaying = JBool False\<rparr>"

definition getRecentlyPlayed_try :: "env \<Rightarrow> jsval \<Rightarrow> SpotifyData io" where
  \<comment> \<open>the \<^verbatim>\<open>try\<close> block of \<^verbatim>\<open>getRecentlyPlayed\<close>\<close>
  "getRecentlyPlayed_try e accessToken =
     bindIO (liftE (toStringJS accessToken)) (\<lambda>bearer.
     bindIO (fetchIO RecentlyPlayedCall (recentlyPlayed (upstream e) bearer))
       (\<lambda>response.
         if \<not> ok response
         then throwIO (Error (''Recently played API error: '' @ showInt (status response)))
         else
           bindIO (liftE (body response)) (\<lambda>json.
           bindIO (liftE (getProp json ''items'')) (\<lambda>items.
             if \<not> truthy items then returnIO noRecentTracks
             else
               bindIO (liftE (getProp items ''length'')) (\<lambda>len.
                 if len = JNum Zero then returnIO noRecentTracks
                 else
                   bindIO (liftE (bindE (getIndex0 items) (\<lambda>item. getProp item ''track'')))
                     (\<lambda>track.
                   bindIO (liftE (mapSpotifyData track)) (\<lambda>m.
                   returnIO (spread (JBool False) m))))))))"

definition getRecentlyPlayed :: "env \<Rightarrow> jsval \<Rightarrow> SpotifyData io" where
  "getRecentlyPlayed e accessToken =
     tryCatch (getRecentlyPlayed_try e accessToken) (\<lambda>err. returnIO recentUnavailable)"

definition getCachedData :: "env \<Rightarrow> SpotifyData option io" where
  "getCachedData e s =
     (case cache s of
        None \<Rightarrow> (Inr None, s)
      | Some c \<Rightarrow>
          if nowAtGet e - timestamp c > CACHE_DURATION
          then (Inr None, s\<lparr>cache := None\<rparr>)
          else (Inr (Some (data c)), s))"

definition setCachedData :: "env \<Rightarrow> SpotifyData \<Rightarrow> unit io" where
  "setCachedData e d s = (Inr (), s\<lparr>cache := Some \<lparr>data = d, timestamp = nowAtSet e\<rparr>\<rparr>)"

definition unableToFetch :: SpotifyData where
  "unableToFetch =
     \<lparr>songUrl = JNull, title = JStr ''Unable to fetch'', albumImageUrl = JNull,
      artist = JStr ''Spotify data unavailable'', isPlaying = JBool False\<rparr>"

definition useRecentlyPlayed :: "env \<Rightarrow> jsval \<Rightarrow> SpotifyData io" where
  \<comment> \<open>the three statements both fallback branches of \<^verbatim>\<open>getSpotifyData\<close> consist of\<close>
  "useRecentlyPlayed e access_token =
     bindIO (getRecentlyPlayed e access_token) (\<lambda>recentData.
     bindIO (setCachedData e recentData) (\<lambda>_.
     returnIO recentData))"

definition lacksTrack :: "jsval \<Rightarrow> bool result" where
  \<comment> \<open>\<^verbatim>\<open>!data.item || !data.item.name || !data.item.artists ||
      data.currently_playing_type !== "track"\<close>, left to right\<close>
  "lacksTrack d =
     bindE (getProp d ''item'') (\<lambda>item.
       if \<not> truthy item then Inr True
       else bindE (getProp item ''name'') (\<lambda>name.
         if \<not> truthy name then Inr True
         else bindE (getProp item ''artists'') (\<lambda>artists.
           if \<not> truthy artists then Inr True
           else bindE (getProp d ''currently_playing_type'') (\<lambda>t.
             Inr (t \<noteq> JStr ''track'')))))"

definition handleNowPlaying :: "env \<Rightarrow> jsval \<Rightarrow> response \<Rightarrow> SpotifyData io" where
  \<comment> \<open>the \<^verbatim>\<open>try\<close> block of \<^verbatim>\<open>getSpotifyData\<close> from the status checks on\<close>
  "handleNowPlaying e access_token nowPlayingResponse =
     (if status nowPlayingResponse = 204 then useRecentlyPlayed e access_token
      else if status nowPlayingResponse = 401
        then throwIO (Error ''Unauthorized - token may be expired'')
      else if status nowPlayingResponse = 403
        then throwIO (Error ''Forbidden - insufficient scopes'')
      else if status nowPlayingResponse = 429
        then throwIO (Error ''Rate limited - too many requests'')
      else if \<not> ok nowPlayingResponse
        then throwIO (Error (''Spotify API error: '' @ showInt (status nowPlayingResponse)))
      else
        bindIO (liftE (body nowPlayingResponse)) (\<lambda>d.
        bindIO (liftE (lacksTrack d)) (\<lambda>lacks.
          if lacks then useRecentlyPlayed e access_token
          else
            bindIO (liftE (getProp d ''is_playing'')) (\<lambda>is_playing.
            bindIO (liftE (bindE (getProp d ''item'') mapSpotifyData)) (\<lambda>m.
            bindIO (setCachedData e (spread is_playing m)) (\<lambda>_.
            returnIO (spread is_playing m)))))))"

definition getSpotifyData_try :: "env \<Rightarrow> SpotifyData io" where
  \<comment> \<open>the \<^verbatim>\<open>try\<close> block of \<^verbatim>\<open>getSpotifyData\<close>, up to the response of the primary lookup\<close>
  "getSpotifyData_try e =
     bindIO (getCachedData e) (\<lambda>cachedData.
       case cachedData of
         Some d \<Rightarrow> returnIO d
       | None \<Rightarrow>
           bindIO (getAccessToken e) (\<lambda>tokenData.
           bindIO (liftE (getProp tokenData ''access_token'')) (\<lambda>access_token.
             if \<not> truthy access_token then throwIO (Error ''Failed to get access token'')
             else
               bindIO (getNowPlayingResponse e access_token)
                 (handleNowPlaying e access_token))))"

definition getSpotifyData_catch :: "error \<Rightarrow> SpotifyData io" where
  \<comment> \<open>the \<^verbatim>\<open>catch\<close> block of \<^verbatim>\<open>getSpotifyData\<close>\<close>
  "getSpotifyData_catch err s =
     (case cache s of
        Some c \<Rightarrow> (Inr (data c), s)
      | None \<Rightarrow> (Inr unableToFetch, s))"

definition getSpotifyData :: "env \<Rightarrow> SpotifyData io" where
  "getSpotifyData e = tryCatch (getSpotifyData_try e) getSpotifyData_catch"

section \<open>The vocabulary of the specification\<close>



definition field :: "jsval \<Rightarrow> string \<Rightarrow> jsval" where
  \<comment> \<open>the value a body holds under a key, \<^verbatim>\<open>undefined\<close> when it holds none\<close>
  "field v k = (case getProp v k of Inl err \<Rightarrow> JUndefined | Inr x \<Rightarrow> x)"


text \<open>
  The track payload as the declared type \<^verbatim>\<open>Track\<close> has it, cut down to what
  \<^verbatim>\<open>mapSpotifyData\<close> reads: the web link (which the specification allows to be absent),
  the name, the URLs of the album's images and the names of the artists.
\<close>

record Track =
  spotifyUrl :: "string option"
  trackName :: string
  imageUrls :: "string list"
  artistNames :: "string list"

definition trackJson :: "Track \<Rightarrow> jsval" where
  "trackJson t =
     JObj [(''album'', JObj [(''images'', JArr (map (\<lambda>u. JObj [(''url'', JStr u)]) (imageUrls t)))]),
           (''artists'', JArr (map (\<lambda>n. JObj [(''name'', JStr n)]) (artistNames t))),
           (''external_urls'',
              JObj (case spotifyUrl t of None \<Rightarrow> [] | Some u \<Rightarrow> [(''spotify'', JStr u)])),
           (''name'', JStr (trackName t))]"

text \<open>The normalization mapping in the words of the specification (section 4.4).\<close>

definition normalization_spec :: "Track \<Rightarrow> TrackInfo" where
  "normalization_spec t =
     \<lparr>songUrl = (case spotifyUrl t of None \<Rightarrow> JNull | Some u \<Rightarrow> JStr u),
      title = (if trackName t = [] then JStr ''Unknown Track'' else JStr (trackName t)),
      albumImageUrl = (case imageUrls t of [] \<Rightarrow> JNull | u # us \<Rightarrow> JStr u),
      artist = (if artistNames t = [] then JStr ''Unknown Artist''
                else JStr (joinWith '', '' (artistNames t)))\<rparr>"

text \<open>The same mapping with every empty string treated as an absent value.\<close>

definition normalization :: "Track \<Rightarrow> TrackInfo" where
  "normalization t =
     \<lparr>songUrl = (case spotifyUrl t of None \<Rightarrow> JNull
                 | Some u \<Rightarrow> if u = [] then JNull else JStr u),
      title = (if trackName t = [] then JStr ''Unknown Track'' else JStr (trackName t)),
      albumImageUrl = (case imageUrls t of [] \<Rightarrow> JNull
                       | u # us \<Rightarrow> if u = [] then JNull else JStr u),
      artist = (if joinWith '', '' (artistNames t) = [] then JStr ''Unknown Artist''
                else JStr (joinWith '', '' (artistNames t)))\<rparr>"

text \<open>
  A body lacks a valid track item when it has no item, the item no name or no artists, or
  its \<^verbatim>\<open>currently_playing_type\<close> is not \<^verbatim>\<open>"track"\<close> (section 4.2).
\<close>

definition lacksValidTrack :: "jsval \<Rightarrow> bool" where
  "lacksValidTrack d =
     (\<not> truthy (field d ''item'') \<or> \<not> truthy (field (field d ''item'') ''name'') \<or>
      \<not> truthy (field (field d ''item'') ''artists'') \<or>
      field d ''currently_playing_type'' \<noteq> JStr ''track'')"

definition credentialAbsent :: "config \<Rightarrow> bool" where
  "credentialAbsent c =
     (envFalsy (SPOTIFY_CLIENT_ID c) \<or> envFalsy (SPOTIFY_CLIENT_SECRET c) \<or>
      envFalsy (SPOTIFY_REFRESH_TOKEN c))"

definition tokenResponse :: "env \<Rightarrow> response result" where
  \<comment> \<open>what the token endpoint answers to the configured credentials\<close>
  "tokenResponse e =
     tokenEndpoint (upstream e) (envStr (SPOTIFY_CLIENT_ID (config e)))
       (envStr (SPOTIFY_CLIENT_SECRET (config e))) (envStr (SPOTIFY_REFRESH_TOKEN (config e)))"

definition hasField :: "jsval \<Rightarrow> string \<Rightarrow> bool" where
  "hasField d k = (case d of JObj kvs \<Rightarrow> map_of kvs k \<noteq> None | _ \<Rightarrow> False)"

text \<open>
  When Token Acquisition raises, in the words of the specification (section 4.1): a
  credential is absent, the response is not successful, or the body contains an error
  field.
\<close>

definition tokenRaises_spec :: "env \<Rightarrow> bool" where
  "tokenRaises_spec e =
     (credentialAbsent (config e) \<or>
      (case tokenResponse e of
         Inl err \<Rightarrow> False
       | Inr r \<Rightarrow> \<not> ok r \<or> (case body r of Inl err \<Rightarrow> False | Inr d \<Rightarrow> hasField d ''error'')))"

text \<open>
  When it raises in the code: also when the request itself rejects, when the body cannot
  be read as JSON or is \<^verbatim>\<open>null\<close>, and only for an error field that is truthy.
\<close>

definition tokenRaises :: "env \<Rightarrow> bool" where
  "tokenRaises e =
     (credentialAbsent (config e) \<or>
      (case tokenResponse e of
         Inl err \<Rightarrow> True
       | Inr r \<Rightarrow> \<not> ok r \<or>
           (case body r of Inl err \<Rightarrow> True | Inr d \<Rightarrow> nullish d \<or> truthy (field d ''error''))))"

section \<open>Sample inputs\<close>

definition cfgFull :: config where
  "cfgFull = \<lparr>SPOTIFY_CLIENT_ID = Some ''id'', SPOTIFY_CLIENT_SECRET = Some ''secret'',
              SPOTIFY_REFRESH_TOKEN = Some ''refresh''\<rparr>"

definition cfgNoId :: config where
  "cfgNoId = \<lparr>SPOTIFY_CLIENT_ID = None, SPOTIFY_CLIENT_SECRET = Some ''secret'',
              SPOTIFY_REFRESH_TOKEN = Some ''refresh''\<rparr>"

definition songA :: Track where
  "songA = \<lparr>spotifyUrl = Some ''https://open.spotify.com/track/a'', trackName = ''Song'',
            imageUrls = [''https://i.scdn.co/image/a''], artistNames = [''Ann'', ''Bob'']\<rparr>"

definition songNoName :: Track where
  \<comment> \<open>a track whose only artist has the empty name\<close>
  "songNoName = \<lparr>spotifyUrl = Some ''https://open.spotify.com/track/b'', trackName = ''Intro'',
                 imageUrls = [''https://i.scdn.co/image/b''], artistNames = [[]]\<rparr>"

definition recordA :: SpotifyData where
  "recordA = \<lparr>songUrl = JStr ''https://open.spotify.com/track/a'', title = JStr ''Song'',
              albumImageUrl = JStr ''https://i.scdn.co/image/a'', artist = JStr ''Ann, Bob'',
              isPlaying = JBool True\<rparr>"

definition respond :: "int \<Rightarrow> jsval \<Rightarrow> response result" where
  "respond st b = Inr \<lparr>status = st, body = Inr b\<rparr>"

definition noContent :: "response result" where
  \<comment> \<open>204: there is no body to parse\<close>
  "noContent = Inr \<lparr>status = 204, body = Inl SyntaxError\<rparr>"

definition tokenBody :: jsval where
  "tokenBody = JObj [(''access_token'', JStr ''tok''), (''token_type'', JStr ''Bearer'')]"

definition playingBody :: jsval where
  "playingBody = JObj [(''is_playing'', JBool True), (''currently_playing_type'', JStr ''track''),
                       (''item'', trackJson songA)]"

definition noFlagBody :: jsval where
  \<comment> \<open>a track envelope without \<^verbatim>\<open>is_playing\<close>\<close>
  "noFlagBody = JObj [(''currently_playing_type'', JStr ''track''), (''item'', trackJson songA)]"

definition adBody :: jsval where
  "adBody = JObj [(''is_playing'', JBool True), (''currently_playing_type'', JStr ''ad''),
                  (''item'', JNull)]"

definition recentBody :: jsval where
  "recentBody = JObj [(''items'', JArr [JObj [(''track'', trackJson songA)]])]"

definition upstreamWith :: "response result \<Rightarrow> response result \<Rightarrow> response result \<Rightarrow> upstream" where
  "upstreamWith tk cp rp =
     \<lparr>tokenEndpoint = (\<lambda>i c r. tk), currentlyPlaying = (\<lambda>t. cp), recentlyPlayed = (\<lambda>t. rp)\<rparr>"

definition envWith :: "config \<Rightarrow> upstream \<Rightarrow> int \<Rightarrow> env" where
  \<comment> \<open>a call whose clock reads \<open>t\<close> at the cache check and \<open>t + 40\<close> at the store\<close>
  "envWith c u t = \<lparr>config = c, upstream = u, nowAtGet = t, nowAtSet = t + 40\<rparr>"

definition upPlaying :: upstream where
  "upPlaying = upstreamWith (respond 200 tokenBody) (respond 200 playingBody) (respond 200 recentBody)"

definition upNoFlag :: upstream where
  "upNoFlag = upstreamWith (respond 200 tokenBody) (respond 200 noFlagBody) (respond 200 recentBody)"

definition upAd :: upstream where
  "upAd = upstreamWith (respond 200 tokenBody) (respond 200 adBody) (respond 200 recentBody)"

definition upNullBody :: upstream where
  "upNullBody = upstreamWith (respond 200 tokenBody) (respond 200 JNull) (respond 200 recentBody)"

definition upNothingPlaying :: upstream where
  "upNothingPlaying = upstreamWith (respond 200 tokenBody) noContent (respond 200 recentBody)"

definition upRecentDown :: upstream where
  "upRecentDown = upstreamWith (respond 200 tokenBody) noContent (respond 503 JNull)"

definition upOffline :: upstream where
  \<comment> \<open>every \<^verbatim>\<open>fetch\<close> rejects\<close>
  "upOffline = upstreamWith (Inl TypeError) (Inl TypeError) (Inl TypeError)"

definition upTokenGarbled :: upstream where
  \<comment> \<open>the token endpoint answers 200 with a body that is not JSON\<close>
  "upTokenGarbled =
     upstreamWith (Inr \<lparr>status = 200, body = Inl SyntaxError\<rparr>) (respond 200 playingBody)
       (respond 200 recentBody)"

definition emptyState :: state where
  "emptyState = \<lparr>cache = None, calls = []\<rparr>"

definition cachedAt :: "int \<Rightarrow> state" where
  "cachedAt t = \<lparr>cache = Some \<lparr>data = recordA, timestamp = t\<rparr>, calls = []\<rparr>"

section \<open>Unfolding the model\<close>

lemmas io_defs = returnIO_def throwIO_def bindIO_def liftE_def tryCatch_def fetchIO_def

lemmas sample_defs = cfgFull_def cfgNoId_def songA_def songNoName_def recordA_def respond_def
  noContent_def tokenBody_def playingBody_def noFlagBody_def adBody_def recentBody_def
  upstreamWith_def envWith_def upPlaying_def upNoFlag_def upAd_def upNullBody_def
  upNothingPlaying_def upRecentDown_def upOffline_def upTokenGarbled_def emptyState_def cachedAt_def trackJson_def

lemmas service_defs = getSpotifyData_def getSpotifyData_try_def getSpotifyData_catch_def
  handleNowPlaying_def useRecentlyPlayed_def getCachedData_def setCachedData_def
  getRecentlyPlayed_def getRecentlyPlayed_try_def getAccessToken_def getNowPlayingResponse_def
  mapSpotifyData_def lacksTrack_def spread_def envFalsy_def envStr_def ok_def
  noRecentTracks_def recentUnavailable_def unableToFetch_def CACHE_DURATION_def
  bindE_def optProp_def orElse_def lengthNum_def

section \<open>The cache\<close>

lemma getSpotifyData_hit:
  "cache s = Some c \<Longrightarrow> nowAtGet e - timestamp c \<le> CACHE_DURATION \<Longrightarrow>
   getSpotifyData e s = (Inr (data c), s)"
  by (simp add: getSpotifyData_def getSpotifyData_try_def getCachedData_def io_defs)

lemma getAccessToken_cache: "cache (snd (getAccessToken e s)) = cache s"
  by (simp add: getAccessToken_def io_defs Let_def split: sum.splits prod.splits)

lemma getRecentlyPlayed_returns: "\<exists>r s'. getRecentlyPlayed e t s = (Inr r, s')"
  by (simp add: getRecentlyPlayed_def tryCatch_def returnIO_def split: sum.splits prod.splits)

lemma useRecentlyPlayed_eq:
  "useRecentlyPlayed e t s =
     (case getRecentlyPlayed e t s of
        (Inl err, s1) \<Rightarrow> (Inl err, s1)
      | (Inr r, s1) \<Rightarrow> (Inr r, s1\<lparr>cache := Some \<lparr>data = r, timestamp = nowAtSet e\<rparr>\<rparr>))"
  by (simp add: useRecentlyPlayed_def setCachedData_def io_defs split: sum.splits prod.splits)

lemma useRecentlyPlayed_stores:
  "useRecentlyPlayed e t s = (Inr r, s') \<Longrightarrow>
   cache s' = Some \<lparr>data = r, timestamp = nowAtSet e\<rparr>"
  by (auto simp add: useRecentlyPlayed_eq split: sum.splits prod.splits)

lemma useRecentlyPlayed_returns: "\<exists>r s'. useRecentlyPlayed e t s = (Inr r, s')"
  using getRecentlyPlayed_returns [of e t s] by (auto simp add: useRecentlyPlayed_eq)

lemma handleNowPlaying_stores:
  "handleNowPlaying e t resp s = (Inr r, s') \<Longrightarrow>
   cache s' = Some \<lparr>data = r, timestamp = nowAtSet e\<rparr>"
  unfolding handleNowPlaying_def
  by (auto simp add: setCachedData_def io_defs dest: useRecentlyPlayed_stores
      split: sum.splits prod.splits if_splits)

lemma handleNowPlaying_throws:
  "handleNowPlaying e t resp s = (Inl err, s') \<Longrightarrow> cache s' = cache s"
  using useRecentlyPlayed_returns [of e t s] unfolding handleNowPlaying_def
  by (auto simp add: setCachedData_def io_defs split: sum.splits prod.splits if_splits)

lemma try_miss_stores:
  assumes "fst (getCachedData e s) = Inr None" and "getSpotifyData_try e s = (Inr r, s')"
  shows "cache s' = Some \<lparr>data = r, timestamp = nowAtSet e\<rparr>"
  using assms unfolding getSpotifyData_try_def
  by (auto simp add: io_defs dest: handleNowPlaying_stores
      split: sum.splits prod.splits if_splits option.splits)

lemma try_throws_cache:
  assumes "getSpotifyData_try e s = (Inl err, s')"
  shows "cache s' = cache (snd (getCachedData e s))"
proof -
  obtain s1 where g: "getCachedData e s = (Inr None, s1)"
    using assms
    by (auto simp add: getSpotifyData_try_def getCachedData_def io_defs
        split: option.splits if_splits)
  have tok: "cache (snd (getAccessToken e s1)) = cache s1"
    by (rule getAccessToken_cache)
  show ?thesis
    using assms g tok
    by (auto simp add: getSpotifyData_try_def getNowPlayingResponse_def io_defs
        dest: handleNowPlaying_throws split: sum.splits prod.splits if_splits)
qed

text \<open>
  Claim C10. The freshness boundary is inclusive. A cache entry whose age is exactly
  15000 ms is a hit: \<^verbatim>\<open>getSpotifyData\<close> returns its record and leaves the state, the log of
  upstream calls included, as it was. \<^verbatim>\<open>getCachedData\<close> misses on an existing entry, and
  sets \<^verbatim>\<open>cache\<close> to \<^verbatim>\<open>null\<close>, exactly when the age is strictly greater than 15000 ms.
\<close>

theorem C10_boundary_inclusive:
  assumes "cache s = Some c"
  shows "(nowAtGet e - timestamp c = 15000 \<longrightarrow> getSpotifyData e s = (Inr (data c), s)) \<and>
         (fst (getCachedData e s) = Inr None \<longleftrightarrow> 15000 < nowAtGet e - timestamp c) \<and>
         (cache (snd (getCachedData e s)) = None \<longleftrightarrow> 15000 < nowAtGet e - timestamp c)"
  using assms getSpotifyData_hit [of s c e]
  by (simp add: getCachedData_def CACHE_DURATION_def)

theorem C10_boundary_inclusive_witness:
  "getSpotifyData (envWith cfgFull upOffline 15000) (cachedAt 0) = (Inr recordA, cachedAt 0) \<and>
   fst (getCachedData (envWith cfgFull upOffline 15000) (cachedAt 0)) \<noteq> Inr None \<and>
   cache (snd (getCachedData (envWith cfgFull upOffline 15001) (cachedAt 0))) = None"
proof -
  have c: "cache (cachedAt 0) = Some \<lparr>data = recordA, timestamp = 0\<rparr>"
    by (simp add: cachedAt_def)
  show ?thesis
    using C10_boundary_inclusive [OF c, of "envWith cfgFull upOffline 15000"]
      C10_boundary_inclusive [OF c, of "envWith cfgFull upOffline 15001"]
    by (simp add: envWith_def)
qed

text \<open>
  Claim C3. In a state whose cache entry is within the freshness window, two consecutive
  calls of \<^verbatim>\<open>getSpotifyData\<close> that read the same clock value return the same record, the
  cached one, and neither of them makes an upstream call: the state after the second call,
  with its log of token, currently-playing and recently-played calls, is the state before
  the first.
\<close>

theorem C3_fresh_calls_idempotent:
  assumes "cache s = Some c" and "nowAtGet e1 - timestamp c \<le> CACHE_DURATION"
    and "nowAtGet e2 = nowAtGet e1"
  shows "fst (getSpotifyData e1 s) = Inr (data c) \<and>
         fst (getSpotifyData e2 (snd (getSpotifyData e1 s))) = fst (getSpotifyData e1 s) \<and>
         calls (snd (getSpotifyData e2 (snd (getSpotifyData e1 s)))) = calls s \<and>
         snd (getSpotifyData e2 (snd (getSpotifyData e1 s))) = s"
  using assms getSpotifyData_hit [of s c e1] getSpotifyData_hit [of s c e2] by simp

theorem C3_fresh_calls_idempotent_witness:
  "fst (getSpotifyData (envWith cfgFull upPlaying 9000) (cachedAt 0)) = Inr recordA \<and>
   fst (getSpotifyData (envWith cfgFull upOffline 9000)
          (snd (getSpotifyData (envWith cfgFull upPlaying 9000) (cachedAt 0)))) = Inr recordA \<and>
   calls (snd (getSpotifyData (envWith cfgFull upOffline 9000)
          (snd (getSpotifyData (envWith cfgFull upPlaying 9000) (cachedAt 0))))) = []"
proof -
  have c: "cache (cachedAt 0) = Some \<lparr>data = recordA, timestamp = 0\<rparr>"
    by (simp add: cachedAt_def)
  have t: "nowAtGet (envWith cfgFull upPlaying 9000) - timestamp \<lparr>data = recordA, timestamp = 0\<rparr>
             \<le> CACHE_DURATION"
    by (simp add: envWith_def CACHE_DURATION_def)
  have n: "nowAtGet (envWith cfgFull upOffline 9000) = nowAtGet (envWith cfgFull upPlaying 9000)"
    by (simp add: envWith_def)
  show ?thesis
    using C3_fresh_calls_idempotent [OF c t n] by (simp add: cachedAt_def)
qed

text \<open>
  Claim C4. Fallback Lookup never raises: whatever the recently-played endpoint does (a
  rejected request, any status, a body that does not parse, any parsed body), and for
  every access token and state, \<^verbatim>\<open>getRecentlyPlayed\<close> returns a record, and the record has
  \<^verbatim>\<open>isPlaying = false\<close>.
\<close>

theorem C4_getRecentlyPlayed_total:
  "\<exists>r s'. getRecentlyPlayed e t s = (Inr r, s') \<and> isPlaying r = JBool False"
proof (cases "getRecentlyPlayed_try e t s")
  case (Pair a s1)
  show ?thesis
  proof (cases a)
    case (Inl err)
    with Pair show ?thesis
      by (simp add: getRecentlyPlayed_def tryCatch_def returnIO_def recentUnavailable_def)
  next
    case (Inr r)
    with Pair have "isPlaying r = JBool False"
      by (auto simp add: getRecentlyPlayed_try_def io_defs noRecentTracks_def spread_def
          split: sum.splits prod.splits if_splits)
    with Pair Inr show ?thesis
      by (simp add: getRecentlyPlayed_def tryCatch_def)
  qed
qed

text \<open>
  Claim C8. With no cache entry, a call of \<^verbatim>\<open>getSpotifyData\<close> in which Token Acquisition
  throws returns exactly the hard-coded placeholder: not playing, no song URL, title
  "Unable to fetch", no album image, artist "Spotify data unavailable".
\<close>

theorem C8_token_failure_without_cache:
  assumes "cache s = None" and "getAccessToken e s = (Inl err, s')"
  shows "fst (getSpotifyData e s) =
           Inr \<lparr>songUrl = JNull, title = JStr ''Unable to fetch'', albumImageUrl = JNull,
                artist = JStr ''Spotify data unavailable'', isPlaying = JBool False\<rparr>"
proof -
  have "cache s' = None"
    using getAccessToken_cache [of e s] assms by simp
  then show ?thesis
    using assms
    by (simp add: getSpotifyData_def getSpotifyData_try_def getCachedData_def
        getSpotifyData_catch_def unableToFetch_def io_defs)
qed

theorem C8_token_failure_without_cache_witness:
  "getAccessToken (envWith cfgNoId upPlaying 1000) emptyState =
     (Inl (Error ''Missing Spotify credentials in environment variables''), emptyState) \<and>
   fst (getSpotifyData (envWith cfgNoId upPlaying 1000) emptyState) =
     Inr \<lparr>songUrl = JNull, title = JStr ''Unable to fetch'', albumImageUrl = JNull,
          artist = JStr ''Spotify data unavailable'', isPlaying = JBool False\<rparr>"
proof -
  have c: "cache emptyState = None"
    by (simp add: emptyState_def)
  have t: "getAccessToken (envWith cfgNoId upPlaying 1000) emptyState =
             (Inl (Error ''Missing Spotify credentials in environment variables''), emptyState)"
    by (simp add: getAccessToken_def envFalsy_def throwIO_def envWith_def cfgNoId_def)
  show ?thesis
    using t C8_token_failure_without_cache [OF c t] by simp
qed

text \<open>
  Claim C9. A call of \<^verbatim>\<open>getSpotifyData\<close> whose cache check misses and whose \<^verbatim>\<open>try\<close> block
  returns a record without throwing (primary success, either fallback delegation, the
  fallback's own error placeholder included) returns that record, and in the state it
  leaves the cache entry is that record, stamped with the clock value read at the store.
\<close>

theorem C9_completed_fetch_is_cached:
  assumes "fst (getCachedData e s) = Inr None" and "getSpotifyData_try e s = (Inr r, s')"
  shows "getSpotifyData e s = (Inr r, s') \<and>
         cache s' = Some \<lparr>data = r, timestamp = nowAtSet e\<rparr>"
  using assms try_miss_stores [OF assms] by (simp add: getSpotifyData_def tryCatch_def)

theorem C9_completed_fetch_is_cached_witness:
  "getSpotifyData (envWith cfgFull upRecentDown 1000) emptyState =
     (Inr recentUnavailable,
      \<lparr>cache = Some \<lparr>data = recentUnavailable, timestamp = 1040\<rparr>,
       calls = [TokenCall, CurrentlyPlayingCall, RecentlyPlayedCall]\<rparr>)"
proof -
  have m: "fst (getCachedData (envWith cfgFull upRecentDown 1000) emptyState) = Inr None"
    by (simp add: getCachedData_def emptyState_def)
  have t: "getSpotifyData_try (envWith cfgFull upRecentDown 1000) emptyState =
             (Inr recentUnavailable,
              \<lparr>cache = Some \<lparr>data = recentUnavailable, timestamp = 1040\<rparr>,
               calls = [TokenCall, CurrentlyPlayingCall, RecentlyPlayedCall]\<rparr>)"
    by (simp add: service_defs io_defs sample_defs Let_def)
  show ?thesis
    using C9_completed_fetch_is_cached [OF m t] by simp
qed

text \<open>
  Claim C2, as the code has it. The claim is that a failed refresh returns the expired
  entry's record. In the code, the cache check has already set \<^verbatim>\<open>cache\<close> to \<^verbatim>\<open>null\<close> when
  it found the entry expired, so the \<^verbatim>\<open>catch\<close> block finds no entry: whenever the entry is
  older than the freshness window and the \<^verbatim>\<open>try\<close> block throws, \<^verbatim>\<open>getSpotifyData\<close> returns
  the hard-coded placeholder and the entry is gone.
\<close>

theorem C2_expired_entry_is_lost:
  assumes "cache s = Some c" and "nowAtGet e - timestamp c > CACHE_DURATION"
    and "getSpotifyData_try e s = (Inl err, s')"
  shows "getSpotifyData e s = (Inr unableToFetch, s') \<and> cache s' = None"
proof -
  have "cache (snd (getCachedData e s)) = None"
    using assms(1,2) by (simp add: getCachedData_def)
  then have "cache s' = None"
    using try_throws_cache [OF assms(3)] by simp
  then show ?thesis
    using assms(3) by (simp add: getSpotifyData_def tryCatch_def getSpotifyData_catch_def)
qed

theorem C2_expired_entry_is_lost_witness:
  "getSpotifyData (envWith cfgFull upOffline 20000) (cachedAt 0) =
     (Inr unableToFetch, \<lparr>cache = None, calls = [TokenCall]\<rparr>) \<and>
   unableToFetch \<noteq> recordA"
proof -
  have c: "cache (cachedAt 0) = Some \<lparr>data = recordA, timestamp = 0\<rparr>"
    by (simp add: cachedAt_def)
  have t: "nowAtGet (envWith cfgFull upOffline 20000) - timestamp \<lparr>data = recordA, timestamp = 0\<rparr>
             > CACHE_DURATION"
    by (simp add: envWith_def CACHE_DURATION_def)
  have f: "getSpotifyData_try (envWith cfgFull upOffline 20000) (cachedAt 0) =
             (Inl TypeError, \<lparr>cache = None, calls = [TokenCall]\<rparr>)"
    by (simp add: service_defs io_defs sample_defs Let_def)
  show ?thesis
    using C2_expired_entry_is_lost [OF c t f] by (simp add: unableToFetch_def recordA_def)
qed

section \<open>Normalization\<close>

lemma getProp_field: "getProp d k = (if nullish d then Inl TypeError else Inr (field d k))"
  by (cases d) (simp_all add: field_def)

lemma mapE_names:
  "mapE (\<lambda>a. getProp a ''name'') (map (\<lambda>n. JObj [(''name'', JStr n)]) ns) = Inr (map JStr ns)"
  by (induction ns) (simp_all add: bindE_def)

lemma jsJoin_strings: "jsJoin sep (map JStr ns) = Inr (joinWith sep ns)"
  by (induction sep ns rule: joinWith.induct) (simp_all add: bindE_def)

lemma joinWith_empty: "joinWith '', '' ns = [] \<longleftrightarrow> ns = [] \<or> ns = [[]]"
  by (induction "'', ''" ns rule: joinWith.induct) simp_all

lemma songUrl_trackJson:
  "bindE (getProp (trackJson t) ''external_urls'') (\<lambda>u. optProp u ''spotify'') =
     Inr (case spotifyUrl t of None \<Rightarrow> JUndefined | Some u \<Rightarrow> JStr u)"
  by (simp add: trackJson_def bindE_def optProp_def split: option.splits)

lemma imageUrl_trackJson:
  "bindE (getProp (trackJson t) ''album'') (\<lambda>album.
     if nullish album then Inr JUndefined
     else bindE (getProp album ''images'') (\<lambda>images.
          bindE (getIndex0 images) (\<lambda>image. optProp image ''url''))) =
     Inr (case imageUrls t of [] \<Rightarrow> JUndefined | u # us \<Rightarrow> JStr u)"
  by (simp add: trackJson_def bindE_def optProp_def split: list.splits)

lemma artists_trackJson:
  "bindE (getProp (trackJson t) ''artists'') (\<lambda>artists.
     if nullish artists then Inr JUndefined
     else bindE (jsMap (\<lambda>a. getProp a ''name'') artists) (\<lambda>names.
          bindE (jsJoin '', '' names) (\<lambda>j. Inr (JStr j)))) =
     Inr (JStr (joinWith '', '' (artistNames t)))"
  by (simp add: trackJson_def bindE_def mapE_names jsJoin_strings)

lemma name_trackJson: "getProp (trackJson t) ''name'' = Inr (JStr (trackName t))"
  by (simp add: trackJson_def)

lemma mapSpotifyData_trackJson: "mapSpotifyData (trackJson t) = Inr (normalization t)"
  unfolding mapSpotifyData_def songUrl_trackJson imageUrl_trackJson artists_trackJson
    name_trackJson
  by (simp add: bindE_def orElse_def normalization_def split: option.splits list.splits)

text \<open>
  Claim C5, as the code has it. On every track payload of the declared shape,
  \<^verbatim>\<open>mapSpotifyData\<close> computes the mapping \<open>normalization\<close>: the song URL is the web link, or
  \<^verbatim>\<open>null\<close> when the link is absent or empty; the title is the name, or "Unknown Track" when
  the name is empty; the album image is the URL of the first image, or \<^verbatim>\<open>null\<close> when the
  list is empty or that URL is empty; the artist is the names joined with ", " in their
  order, or "Unknown Artist" when the joined string is empty (no artist, or one artist
  with the empty name). It agrees with the mapping of the specification on every track
  without such empty strings.
\<close>

theorem C5_normalization:
  "mapSpotifyData (trackJson t) = Inr (normalization t) \<and>
   (spotifyUrl t \<noteq> Some [] \<and> (case imageUrls t of [] \<Rightarrow> True | u # us \<Rightarrow> u \<noteq> []) \<and>
    artistNames t \<noteq> [[]] \<longrightarrow>
      normalization t = normalization_spec t)"
  by (auto simp add: mapSpotifyData_trackJson normalization_def normalization_spec_def
      joinWith_empty split: option.splits list.splits)

theorem C5_normalization_witness:
  "mapSpotifyData (trackJson songA) =
     Inr \<lparr>songUrl = JStr ''https://open.spotify.com/track/a'', title = JStr ''Song'',
          albumImageUrl = JStr ''https://i.scdn.co/image/a'', artist = JStr ''Ann, Bob''\<rparr> \<and>
   normalization_spec songA =
     \<lparr>songUrl = JStr ''https://open.spotify.com/track/a'', title = JStr ''Song'',
      albumImageUrl = JStr ''https://i.scdn.co/image/a'', artist = JStr ''Ann, Bob''\<rparr>"
  using C5_normalization [of songA]
  by (simp add: normalization_def normalization_spec_def songA_def)

text \<open>
  Claim C5 as stated fails on a track whose only artist has the empty name: the list of
  artists is not empty and the joined names are the empty string, where the code
  answers "Unknown Artist".
\<close>

theorem C5_empty_artist_name_counterexample:
  "mapSpotifyData (trackJson songNoName) \<noteq> Inr (normalization_spec songNoName) \<and>
   artist (normalization_spec songNoName) = JStr [] \<and>
   map_sum id artist (mapSpotifyData (trackJson songNoName)) = Inr (JStr ''Unknown Artist'')"
  by (simp add: mapSpotifyData_trackJson normalization_def normalization_spec_def songNoName_def)

section \<open>Token Acquisition\<close>

lemma getAccessToken_absent:
  "credentialAbsent (config e) \<Longrightarrow>
   getAccessToken e s =
     (Inl (Error ''Missing Spotify credentials in environment variables''), s)"
  by (simp add: getAccessToken_def credentialAbsent_def throwIO_def Let_def)

lemma getAccessToken_present:
  "\<not> credentialAbsent (config e) \<Longrightarrow>
   getAccessToken e s =
     (case tokenResponse e of
        Inl err \<Rightarrow> (Inl err, s\<lparr>calls := calls s @ [TokenCall]\<rparr>)
      | Inr r \<Rightarrow>
          if \<not> ok r
          then (Inl (Error (''Token refresh failed: '' @ showInt (status r))),
                s\<lparr>calls := calls s @ [TokenCall]\<rparr>)
          else (case body r of
                  Inl err \<Rightarrow> (Inl err, s\<lparr>calls := calls s @ [TokenCall]\<rparr>)
                | Inr d \<Rightarrow>
                    if nullish d then (Inl TypeError, s\<lparr>calls := calls s @ [TokenCall]\<rparr>)
                    else if truthy (field d ''error'')
                    then (case toStringJS (orElse (field d ''error_description'')
                                             (field d ''error'')) of
                            Inl err \<Rightarrow> (Inl err, s\<lparr>calls := calls s @ [TokenCall]\<rparr>)
                          | Inr description \<Rightarrow>
                              (Inl (Error (''Spotify auth error: '' @ description)),
                               s\<lparr>calls := calls s @ [TokenCall]\<rparr>))
                    else (Inr d, s\<lparr>calls := calls s @ [TokenCall]\<rparr>)))"
  by (simp add: getAccessToken_def credentialAbsent_def tokenResponse_def io_defs Let_def
      getProp_field split: sum.splits)

text \<open>
  Claim C7, as the code has it. \<^verbatim>\<open>getAccessToken\<close> raises exactly when \<open>tokenRaises\<close>
  holds: a credential is unset or empty, the request to the token endpoint rejects, the
  response is not successful, the body cannot be read as JSON or is \<^verbatim>\<open>null\<close>, or the
  body's error field is truthy. With a credential unset or empty it raises before any
  network call (the state and its call log are untouched). Otherwise it makes one call of
  the token endpoint and returns the parsed body.
\<close>

theorem C7_token_acquisition_raises:
  "((\<exists>err s'. getAccessToken e s = (Inl err, s')) \<longleftrightarrow> tokenRaises e) \<and>
   (credentialAbsent (config e) \<longrightarrow> snd (getAccessToken e s) = s) \<and>
   (\<not> tokenRaises e \<longrightarrow>
      (\<exists>r d. tokenResponse e = Inr r \<and> body r = Inr d \<and>
         getAccessToken e s = (Inr d, s\<lparr>calls := calls s @ [TokenCall]\<rparr>)))"
proof (cases "credentialAbsent (config e)")
  case True
  then show ?thesis
    by (simp add: getAccessToken_absent tokenRaises_def)
next
  case False
  then show ?thesis
    by (auto simp add: getAccessToken_present tokenRaises_def split: sum.splits)
qed

theorem C7_token_acquisition_raises_witness:
  "getAccessToken (envWith cfgNoId upPlaying 1000) emptyState =
     (Inl (Error ''Missing Spotify credentials in environment variables''), emptyState) \<and>
   getAccessToken (envWith cfgFull upPlaying 1000) emptyState =
     (Inr tokenBody, \<lparr>cache = None, calls = [TokenCall]\<rparr>)"
proof -
  have a: "credentialAbsent (config (envWith cfgNoId upPlaying 1000))"
    by (simp add: credentialAbsent_def envFalsy_def envWith_def cfgNoId_def)
  have r: "tokenResponse (envWith cfgFull upPlaying 1000) = respond 200 tokenBody"
    by (simp add: tokenResponse_def envWith_def upPlaying_def upstreamWith_def)
  have n: "\<not> tokenRaises (envWith cfgFull upPlaying 1000)"
    unfolding tokenRaises_def r
    by (simp add: respond_def ok_def tokenBody_def field_def credentialAbsent_def
        envFalsy_def envWith_def cfgFull_def)
  show ?thesis
    using C7_token_acquisition_raises [of "envWith cfgNoId upPlaying 1000" emptyState]
      C7_token_acquisition_raises [of "envWith cfgFull upPlaying 1000" emptyState] a n r
    by (auto simp add: respond_def emptyState_def getAccessToken_absent)
qed

text \<open>
  Claim C7 as stated fails when the request itself rejects, and when a successful
  response has a body that is not JSON: all credentials are present, no response is
  unsuccessful, no body contains an error field, and \<^verbatim>\<open>getAccessToken\<close> raises.
\<close>

theorem C7_rejected_request_counterexample:
  "fst (getAccessToken (envWith cfgFull upOffline 1000) emptyState) = Inl TypeError \<and>
   \<not> tokenRaises_spec (envWith cfgFull upOffline 1000) \<and>
   fst (getAccessToken (envWith cfgFull upTokenGarbled 1000) emptyState) = Inl SyntaxError \<and>
   \<not> tokenRaises_spec (envWith cfgFull upTokenGarbled 1000)"
  by (simp add: getAccessToken_def tokenRaises_spec_def tokenResponse_def credentialAbsent_def
      envFalsy_def envStr_def ok_def io_defs Let_def envWith_def cfgFull_def upOffline_def
      upTokenGarbled_def upstreamWith_def)

section \<open>Primary Lookup\<close>

lemma truthy_not_nullish: "truthy v \<Longrightarrow> \<not> nullish v"
  by (cases v) simp_all

lemma lacksTrack_field: "\<not> nullish d \<Longrightarrow> lacksTrack d = Inr (lacksValidTrack d)"
  by (auto simp add: lacksTrack_def lacksValidTrack_def bindE_def getProp_field
      truthy_not_nullish)

lemma handleNowPlaying_204:
  "status r = 204 \<Longrightarrow> handleNowPlaying e tok r = useRecentlyPlayed e tok"
  by (simp add: handleNowPlaying_def)

lemma handleNowPlaying_trackless:
  assumes "ok r" and "status r \<noteq> 204" and "body r = Inr d" and "\<not> nullish d"
    and "lacksValidTrack d"
  shows "handleNowPlaying e tok r = useRecentlyPlayed e tok"
proof
  fix s
  have "status r \<noteq> 401" "status r \<noteq> 403" "status r \<noteq> 429"
    using assms(1) by (simp_all add: ok_def)
  then show "handleNowPlaying e tok r s = useRecentlyPlayed e tok s"
    using assms by (simp add: handleNowPlaying_def io_defs lacksTrack_field)
qed

lemma setCachedData_upstream:
  "setCachedData (e\<lparr>upstream := u\<rparr>) d = setCachedData e d"
  by (simp add: fun_eq_iff setCachedData_def)

lemma getRecentlyPlayed_upstream:
  "getRecentlyPlayed (e\<lparr>upstream := (upstream e)\<lparr>currentlyPlaying := cp\<rparr>\<rparr>) tok =
   getRecentlyPlayed e tok"
  by (simp add: getRecentlyPlayed_def getRecentlyPlayed_try_def)

lemma useRecentlyPlayed_upstream:
  "useRecentlyPlayed (e\<lparr>upstream := (upstream e)\<lparr>currentlyPlaying := cp\<rparr>\<rparr>) tok =
   useRecentlyPlayed e tok"
  by (simp add: useRecentlyPlayed_def getRecentlyPlayed_upstream setCachedData_upstream)

lemma getAccessToken_upstream:
  "getAccessToken (e\<lparr>upstream := (upstream e)\<lparr>currentlyPlaying := cp\<rparr>\<rparr>) = getAccessToken e"
  by (simp add: getAccessToken_def Let_def)

lemma getCachedData_upstream:
  "getCachedData (e\<lparr>upstream := u\<rparr>) = getCachedData e"
  by (simp add: fun_eq_iff getCachedData_def split: option.splits)

lemma try_reaches_primary:
  assumes "getCachedData e s = (Inr None, sa)"
    and "getAccessToken e sa = (Inr tokenData, sb)"
    and "getProp tokenData ''access_token'' = Inr access_token" and "truthy access_token"
    and "toStringJS access_token = Inr bearer"
    and "currentlyPlaying (upstream e) bearer = Inr r"
  shows "getSpotifyData_try e s =
           handleNowPlaying e access_token r (sb\<lparr>calls := calls sb @ [CurrentlyPlayingCall]\<rparr>)"
  using assms by (simp add: getSpotifyData_try_def getNowPlayingResponse_def io_defs)

text \<open>
  Claim C6, as the code has it. Take a call of \<^verbatim>\<open>getSpotifyData\<close> that reaches the primary
  lookup (the cache check misses, Token Acquisition returns a truthy access token that
  renders as \<open>bearer\<close>) and whose primary response is successful, not 204, with a body
  that is not \<^verbatim>\<open>null\<close> and lacks a valid track item. Then the call delegates to Fallback
  Lookup with that access token; the record the fallback returns is what the call
  returns, and the state it leaves holds that record as the cache entry, stamped with the
  clock read at the store. The result and the state are the same as when the endpoint
  answers that request with a 204.
\<close>

theorem C6_trackless_body_like_204:
  assumes "getCachedData e s = (Inr None, s1)"
    and "getAccessToken e s1 = (Inr tokenData, s2)"
    and "getProp tokenData ''access_token'' = Inr access_token" and "truthy access_token"
    and "toStringJS access_token = Inr bearer"
    and "currentlyPlaying (upstream e) bearer = Inr r"
    and "ok r" and "status r \<noteq> 204" and "body r = Inr d" and "\<not> nullish d"
    and "lacksValidTrack d"
    and "status r204 = 204"
  shows "\<exists>recentData s3.
           getRecentlyPlayed e access_token (s2\<lparr>calls := calls s2 @ [CurrentlyPlayingCall]\<rparr>) =
             (Inr recentData, s3) \<and>
           getSpotifyData e s =
             (Inr recentData,
              s3\<lparr>cache := Some \<lparr>data = recentData, timestamp = nowAtSet e\<rparr>\<rparr>) \<and>
           getSpotifyData
             (e\<lparr>upstream := (upstream e)
                  \<lparr>currentlyPlaying := (currentlyPlaying (upstream e))(bearer := Inr r204)\<rparr>\<rparr>) s =
             getSpotifyData e s"
proof -
  let ?s = "s2\<lparr>calls := calls s2 @ [CurrentlyPlayingCall]\<rparr>"
  let ?e = "e\<lparr>upstream := (upstream e)
               \<lparr>currentlyPlaying := (currentlyPlaying (upstream e))(bearer := Inr r204)\<rparr>\<rparr>"
  obtain recentData s3 where f: "getRecentlyPlayed e access_token ?s = (Inr recentData, s3)"
    using getRecentlyPlayed_returns by blast
  have u: "useRecentlyPlayed e access_token ?s =
             (Inr recentData, s3\<lparr>cache := Some \<lparr>data = recentData, timestamp = nowAtSet e\<rparr>\<rparr>)"
    using f by (simp add: useRecentlyPlayed_eq)
  have "getSpotifyData_try e s = handleNowPlaying e access_token r ?s"
    using assms(1-6) by (rule try_reaches_primary)
  then have t: "getSpotifyData_try e s = useRecentlyPlayed e access_token ?s"
    using handleNowPlaying_trackless [OF assms(7-11)] by simp
  have "getSpotifyData_try ?e s = handleNowPlaying ?e access_token r204 ?s"
    by (rule try_reaches_primary [where tokenData = tokenData and bearer = bearer and sa = s1])
      (simp_all add: assms getCachedData_upstream getAccessToken_upstream)
  then have t204: "getSpotifyData_try ?e s = useRecentlyPlayed e access_token ?s"
    using assms(12) by (simp add: handleNowPlaying_204 useRecentlyPlayed_upstream)
  show ?thesis
    using f u t t204 by (simp add: getSpotifyData_def tryCatch_def)
qed

theorem C6_trackless_body_like_204_witness:
  "getSpotifyData (envWith cfgFull upAd 1000) emptyState =
     (Inr (recordA\<lparr>isPlaying := JBool False\<rparr>),
      \<lparr>cache = Some \<lparr>data = recordA\<lparr>isPlaying := JBool False\<rparr>, timestamp = 1040\<rparr>,
       calls = [TokenCall, CurrentlyPlayingCall, RecentlyPlayedCall]\<rparr>)"
proof -
  let ?e = "envWith cfgFull upAd 1000"
  have h1: "getCachedData ?e emptyState = (Inr None, emptyState)"
    by (simp add: getCachedData_def emptyState_def)
  have h2: "getAccessToken ?e emptyState = (Inr tokenBody, \<lparr>cache = None, calls = [TokenCall]\<rparr>)"
    by (simp add: service_defs io_defs sample_defs Let_def)
  have h3: "getProp tokenBody ''access_token'' = Inr (JStr ''tok'')"
    by (simp add: tokenBody_def)
  have h4: "truthy (JStr ''tok'')"
    by simp
  have h5: "toStringJS (JStr ''tok'') = Inr ''tok''"
    by simp
  have h6: "currentlyPlaying (upstream ?e) ''tok'' = Inr \<lparr>status = 200, body = Inr adBody\<rparr>"
    by (simp add: envWith_def upAd_def upstreamWith_def respond_def)
  have h7: "ok \<lparr>status = 200, body = Inr adBody\<rparr>"
    by (simp add: ok_def)
  have h8: "status \<lparr>status = 200, body = Inr adBody\<rparr> \<noteq> 204"
    by simp
  have h9: "body \<lparr>status = 200, body = Inr adBody\<rparr> = Inr adBody"
    by simp
  have h10: "\<not> nullish adBody"
    by (simp add: adBody_def)
  have h11: "lacksValidTrack adBody"
    by (simp add: lacksValidTrack_def field_def adBody_def)
  have h12: "status \<lparr>status = 204, body = Inl SyntaxError\<rparr> = 204"
    by simp
  have f: "getRecentlyPlayed ?e (JStr ''tok'')
             (\<lparr>cache = None, calls = [TokenCall]\<rparr>
                \<lparr>calls := calls \<lparr>cache = None, calls = [TokenCall]\<rparr> @ [CurrentlyPlayingCall]\<rparr>) =
           (Inr (recordA\<lparr>isPlaying := JBool False\<rparr>),
            \<lparr>cache = None, calls = [TokenCall, CurrentlyPlayingCall, RecentlyPlayedCall]\<rparr>)"
    by (simp add: service_defs io_defs sample_defs Let_def)
  show ?thesis
    using C6_trackless_body_like_204 [OF h1 h2 h3 h4 h5 h6 h7 h8 h9 h10 h11 h12] f
    by (auto simp add: envWith_def)
qed

text \<open>
  Claim C6 as stated fails on the body \<^verbatim>\<open>null\<close>: it has no item, but reading
  \<^verbatim>\<open>data.item\<close> throws, so the call ends in the outermost \<^verbatim>\<open>catch\<close> (here with the
  hard-coded placeholder and nothing cached), where a 204 gives the fallback's record.
\<close>

theorem C6_null_body_counterexample:
  "lacksValidTrack JNull \<and>
   getSpotifyData (envWith cfgFull upNullBody 1000) emptyState =
     (Inr unableToFetch, \<lparr>cache = None, calls = [TokenCall, CurrentlyPlayingCall]\<rparr>) \<and>
   getSpotifyData (envWith cfgFull upNothingPlaying 1000) emptyState =
     (Inr (recordA\<lparr>isPlaying := JBool False\<rparr>),
      \<lparr>cache = Some \<lparr>data = recordA\<lparr>isPlaying := JBool False\<rparr>, timestamp = 1040\<rparr>,
       calls = [TokenCall, CurrentlyPlayingCall, RecentlyPlayedCall]\<rparr>)"
  by (simp add: lacksValidTrack_def field_def service_defs io_defs sample_defs Let_def)

section \<open>Totality\<close>














end
